theory Spec2Isabelle
  imports Complex_Main
begin

section \<open>Battery-cell dashboard: the evaluable domain logic\<close>

text \<open>
  Shallow embedding of \<^verbatim>\<open>src/cell_charge_discharge.py\<close>: the cell specification
  table, the safety evaluator, the charge estimator, the telemetry synthesizer, the
  rolling real-time buffer of the control panel and the safety score of the analysis
  page.

  Numbers. The program computes on Python floats. A finite float is a real number, and
  the comparisons the program makes (\<open><\<close>, \<open>\<le>\<close>, \<open>\<noteq>\<close>, \<open>max\<close>, \<open>abs\<close>) are exact
  on finite floats, so voltages, currents and temperatures are values of type \<open>real\<close>.
  The rounding of \<open>+\<close>, \<open>-\<close>, \<open>*\<close> and \<open>/\<close> is not modelled: the arithmetic below is
  the exact one. The literals of the table (\<open>2.8\<close>, \<open>3.6\<close>, ...) are read as the decimal
  numbers they spell; every theorem about a chemistry is stated against the bounds stored
  in the table entry, whatever their value.
\<close>

subsection \<open>Errors\<close>

text \<open>
  The two exceptions the modelled functions can raise: the subscript
  \<^verbatim>\<open>CELL_SPECS[cell_type]\<close> on a key that is not in the table, and a float division
  by zero.
\<close>

datatype error = KeyError string | ZeroDivisionError

subsection \<open>Cell specification table\<close>

text \<open>
  \<^verbatim>\<open>CELL_SPECS = {"LFP": {"nominal": 3.2, "min": 2.8, "max": 3.6, "color": ...}, ...}\<close>.
  The fields \<^verbatim>\<open>min\<close> and \<^verbatim>\<open>max\<close> are named \<open>spec_min\<close> and \<open>spec_max\<close>: \<open>min\<close> and
  \<open>max\<close> are constants of HOL.
\<close>

record cell_spec =
  nominal :: real
  spec_min :: real
  spec_max :: real
  color :: string

definition CELL_SPECS :: "string \<rightharpoonup> cell_spec" where
  "CELL_SPECS =
     [''LFP'' \<mapsto> \<lparr>nominal = 3.2, spec_min = 2.8, spec_max = 3.6, color = ''#4CAF50''\<rparr>,
      ''NMC'' \<mapsto> \<lparr>nominal = 3.6, spec_min = 3.0, spec_max = 4.2, color = ''#2196F3''\<rparr>,
      ''LTO'' \<mapsto> \<lparr>nominal = 2.4, spec_min = 1.8, spec_max = 2.8, color = ''#FF9800''\<rparr>]"

subsection \<open>Safety evaluator\<close>

text \<open>
  A warning is the pair the source appends: a severity label and a message. The label
  is one of two fixed strings; the message is an f-string, kept here as the kind of
  message together with the numbers it formats (the rendering to two or one decimals is
  left out).
\<close>

datatype severity = CRITICAL | WARNING

datatype message =
    Overvoltage real real
  | Undervoltage real real
  | High_current real
  | Overheating real
  | Low_temperature real

type_synonym warning = "severity \<times> message"

text \<open>
  \<^verbatim>\<open>get_safety_warnings(voltage, current, temperature, cell_type)\<close>, lines 213-231.
  The three \<^verbatim>\<open>if\<close> statements run one after the other on the growing list.
\<close>

definition get_safety_warnings :: "real \<Rightarrow> real \<Rightarrow> real \<Rightarrow> string \<Rightarrow> error + warning list" where
  "get_safety_warnings voltage current temperature cell_type =
     (case CELL_SPECS cell_type of
        None \<Rightarrow> Inl (KeyError cell_type)
      | Some spec \<Rightarrow>
          (let warnings = [];
               warnings =
                 (if voltage > spec_max spec
                  then warnings @ [(CRITICAL, Overvoltage voltage (spec_max spec))]
                  else if voltage < spec_min spec
                  then warnings @ [(WARNING, Undervoltage voltage (spec_min spec))]
                  else warnings);
               warnings =
                 (if \<bar>current\<bar> > 10
                  then warnings @ [(WARNING, High_current \<bar>current\<bar>)]
                  else warnings);
               warnings =
                 (if temperature > 45
                  then warnings @ [(CRITICAL, Overheating temperature)]
                  else if temperature < 0
                  then warnings @ [(WARNING, Low_temperature temperature)]
                  else warnings)
           in Inr warnings))"

text \<open>
  The dimension a warning reports on, numbered in the order of the three checks: 0 for
  the voltage, 1 for the current, 2 for the temperature. It serves to state the order of
  the returned list.
\<close>

fun dimension :: "warning \<Rightarrow> nat" where
  "dimension (sev, Overvoltage v m) = 0"
| "dimension (sev, Undervoltage v m) = 0"
| "dimension (sev, High_current i) = 1"
| "dimension (sev, Overheating t) = 2"
| "dimension (sev, Low_temperature t) = 2"

subsection \<open>Charge estimator\<close>

text \<open>
  \<^verbatim>\<open>calculate_charge_percentage(voltage, cell_type)\<close>, lines 233-241. Python raises
  \<^verbatim>\<open>ZeroDivisionError\<close> on a float division by zero; the branch is part of the model.
\<close>

definition calculate_charge_percentage :: "real \<Rightarrow> string \<Rightarrow> error + real" where
  "calculate_charge_percentage voltage cell_type =
     (case CELL_SPECS cell_type of
        None \<Rightarrow> Inl (KeyError cell_type)
      | Some spec \<Rightarrow>
          if voltage \<le> spec_min spec then Inr 0
          else if voltage \<ge> spec_max spec then Inr 100
          else if spec_max spec - spec_min spec = 0 then Inl ZeroDivisionError
          else Inr (((voltage - spec_min spec) / (spec_max spec - spec_min spec)) * 100))"

subsection \<open>Safety score\<close>

text \<open>
  The analysis page computes, for each row,
  \<^verbatim>\<open>safety_score = max(0, 100 - len(warnings) * 25)\<close> (line 797). \<open>safety_score\<close> is
  that expression as a function of the number of warnings; \<open>safety_row\<close> is the body of
  the loop: the warnings of the row, then the score and the count stored for it.
\<close>

definition safety_score :: "nat \<Rightarrow> int" where
  "safety_score warning_count = max 0 (100 - int warning_count * 25)"

definition safety_row :: "real \<Rightarrow> real \<Rightarrow> real \<Rightarrow> string \<Rightarrow> error + (int \<times> nat)" where
  "safety_row voltage current temperature cell_type =
     (case get_safety_warnings voltage current temperature cell_type of
        Inl e \<Rightarrow> Inl e
      | Inr warnings \<Rightarrow> Inr (safety_score (length warnings), length warnings))"

subsection \<open>Telemetry synthesizer\<close>

text \<open>
  The entries of \<^verbatim>\<open>st.session_state.cells_data\<close> are the dictionaries stored by
  \<^verbatim>\<open>configure_cell\<close> (lines 309-317); the fields carry the prefix \<open>c_\<close>. The key
  \<^verbatim>\<open>'type'\<close> is read with \<^verbatim>\<open>.get('type', 'LFP')\<close>, so it is optional here. A
  data point is the dictionary built at lines 201-209; its fields carry the prefix
  \<open>s_\<close>. A timestamp is a number of microseconds.
\<close>

type_synonym datetime = int

record cell_data =
  c_type :: "string option"
  c_voltage :: real
  c_current :: real
  c_temperature :: real
  c_time :: real
  c_capacity :: real

record data_point =
  s_timestamp :: datetime
  s_cell_id :: string
  s_cell_type :: string
  s_voltage :: real
  s_current :: real
  s_temperature :: real
  s_capacity :: real

text \<open>
  The random source. \<^verbatim>\<open>random.uniform(a, b)\<close> of the Python library returns
  \<^verbatim>\<open>a + (b - a) * self.random()\<close>. The state of the generator is the sequence of
  values \<^verbatim>\<open>random()\<close> is going to return; a call takes the first one and leaves
  the rest.
\<close>

type_synonym rng = "nat \<Rightarrow> real"

definition random_uniform :: "real \<Rightarrow> real \<Rightarrow> rng \<Rightarrow> real \<times> rng" where
  "random_uniform a b g = (a + (b - a) * g 0, \<lambda>n. g (Suc n))"

text \<open>
  The session state the modelled code reads and writes. \<^verbatim>\<open>cells_data\<close> is a
  dictionary: it is kept as the list of its items, in insertion order, so that
  \<^verbatim>\<open>len(cells_data)\<close> is the length of the list.
\<close>

record session =
  cells_data :: "(string \<times> cell_data) list"
  charging_status :: string
  real_time_data :: "data_point list"

text \<open>
  Lines 179-199 of \<^verbatim>\<open>generate_real_time_data\<close>: the perturbed voltage, current and
  temperature of one cell under the current status. The draws are made in the order of
  the assignments.
\<close>

definition perturb :: "string \<Rightarrow> cell_data \<Rightarrow> rng \<Rightarrow> (real \<times> real \<times> real) \<times> rng" where
  "perturb status cell g =
     (let base_voltage = c_voltage cell;
          base_current = c_current cell;
          base_temp = c_temperature cell
      in if status = ''Charging'' then
           (let (r1, g) = random_uniform 0.05 0.15 g;
                (r2, g) = random_uniform (- 0.5) 0.5 g;
                (r3, g) = random_uniform 2 8 g
            in ((base_voltage + r1, \<bar>base_current\<bar> + r2, base_temp + r3), g))
         else if status = ''Discharging'' then
           (let (r1, g) = random_uniform 0.05 0.15 g;
                (r2, g) = random_uniform (- 0.5) 0.5 g;
                (r3, g) = random_uniform 1 5 g
            in ((base_voltage - r1, - \<bar>base_current\<bar> + r2, base_temp + r3), g))
         else if status = ''Paused'' then
           (let (r1, g) = random_uniform (- 0.02) 0.02 g;
                (r2, g) = random_uniform (- 0.1) 0.1 g;
                (r3, g) = random_uniform (- 1) 1 g
            in ((base_voltage + r1, r2, base_temp + r3), g))
         else
           (let (r1, g) = random_uniform (- 0.01) 0.01 g;
                (r3, g) = random_uniform (- 0.5) 0.5 g
            in ((base_voltage + r1, 0, base_temp + r3), g)))"

text \<open>
  Lines 201-209: the dictionary appended for one cell. The field \<^verbatim>\<open>'voltage'\<close> is
  \<^verbatim>\<open>max(0, voltage)\<close>; the field \<^verbatim>\<open>'capacity'\<close> is computed from the local
  variable \<^verbatim>\<open>voltage\<close>.
\<close>

definition make_data_point ::
    "datetime \<Rightarrow> string \<Rightarrow> cell_data \<Rightarrow> real \<Rightarrow> real \<Rightarrow> real \<Rightarrow> data_point" where
  "make_data_point current_time cell_name cell v i t =
     \<lparr>s_timestamp = current_time,
      s_cell_id = cell_name,
      s_cell_type = (case c_type cell of None \<Rightarrow> ''LFP'' | Some ty \<Rightarrow> ty),
      s_voltage = max 0 v,
      s_current = i,
      s_temperature = t,
      s_capacity = (if i \<noteq> 0 then \<bar>v * i\<bar> else 0)\<rparr>"

text \<open>The loop over \<^verbatim>\<open>cells_data.items()\<close>, one data point per cell, in order.\<close>

fun data_points :: "datetime \<Rightarrow> string \<Rightarrow> (string \<times> cell_data) list \<Rightarrow> rng \<Rightarrow> data_point list \<times> rng" where
  "data_points current_time status [] g = ([], g)"
| "data_points current_time status ((cell_name, cell) # rest) g =
     (let ((v, i, t), g) = perturb status cell g;
          point = make_data_point current_time cell_name cell v i t;
          (points, g) = data_points current_time status rest g
      in (point # points, g))"

definition generate_real_time_data :: "datetime \<Rightarrow> session \<Rightarrow> rng \<Rightarrow> data_point list \<times> rng" where
  "generate_real_time_data current_time st g =
     data_points current_time (charging_status st) (cells_data st) g"

subsection \<open>Rolling real-time buffer\<close>

text \<open>
  The Python slice \<^verbatim>\<open>xs[-k:]\<close> for \<open>k \<ge> 0\<close>: the last \<open>k\<close> elements, the whole
  list when \<open>k\<close> exceeds its length, and the whole list when \<open>k = 0\<close> (\<^verbatim>\<open>xs[-0:]\<close>
  is \<^verbatim>\<open>xs[0:]\<close>).
\<close>

definition slice_last :: "nat \<Rightarrow> 'a list \<Rightarrow> 'a list" where
  "slice_last k xs = (if k = 0 then xs else drop (length xs - k) xs)"

text \<open>
  Lines 514-523 of the control panel, run once per tick: under the guard
  \<^verbatim>\<open>if st.session_state.cells_data\<close>, the new data points are appended and the
  buffer is cut to its last \<open>60 * len(cells_data)\<close> entries.
\<close>

definition control_panel_tick :: "datetime \<Rightarrow> session \<Rightarrow> rng \<Rightarrow> session \<times> rng" where
  "control_panel_tick current_time st g =
     (if cells_data st \<noteq> [] then
        (let (current_data, g) = generate_real_time_data current_time st g;
             st = st\<lparr>real_time_data := real_time_data st @ current_data\<rparr>;
             st = (if length (real_time_data st) > 60 * length (cells_data st)
                   then st\<lparr>real_time_data :=
                          slice_last (60 * length (cells_data st)) (real_time_data st)\<rparr>
                   else st)
         in (st, g))
      else (st, g))"

text \<open>A sequence of ticks, one per timestamp, each on the session the previous one left.\<close>

fun run_ticks :: "datetime list \<Rightarrow> session \<Rightarrow> rng \<Rightarrow> session \<times> rng" where
  "run_ticks [] st g = (st, g)"
| "run_ticks (current_time # ticks) st g =
     (let (st, g) = control_panel_tick current_time st g in run_ticks ticks st g)"

section \<open>Properties\<close>

subsection \<open>The table\<close>

lemma CELL_SPECS_Some:
  assumes "CELL_SPECS cell_type = Some spec"
  shows "cell_type \<in> {''LFP'', ''NMC'', ''LTO''}"
    and "spec_min spec < spec_max spec"
  using assms by (auto simp: CELL_SPECS_def split: if_splits)

lemma CELL_SPECS_dom: "dom CELL_SPECS = {''LFP'', ''NMC'', ''LTO''}"
  by (auto simp: CELL_SPECS_def split: if_splits)

subsection \<open>Safety evaluator: when the list is empty\<close>

text \<open>
  Claim C1. For every voltage \<open>v\<close>, signed current \<open>i\<close>, temperature \<open>t\<close> and every
  chemistry of the table, \<open>get_safety_warnings\<close> returns a list (it does not raise), and
  the list is empty exactly when \<open>min \<le> v \<le> max\<close>, \<open>|i| \<le> 10\<close> and \<open>0 \<le> t \<le> 45\<close>.
  A negative temperature gives the low-temperature warning, not an error.
\<close>

theorem get_safety_warnings_empty_iff:
  assumes "CELL_SPECS cell_type = Some spec"
  shows "\<exists>ws. get_safety_warnings v i t cell_type = Inr ws \<and>
           (ws = [] \<longleftrightarrow>
              spec_min spec \<le> v \<and> v \<le> spec_max spec \<and> \<bar>i\<bar> \<le> 10 \<and> 0 \<le> t \<and> t \<le> 45) \<and>
           (t < 0 \<longrightarrow> (WARNING, Low_temperature t) \<in> set ws)"
  using assms CELL_SPECS_Some(2)[OF assms]
  by (auto simp: get_safety_warnings_def Let_def)

theorem get_safety_warnings_empty_iff_witness:
  "CELL_SPECS ''NMC'' =
     Some \<lparr>nominal = 3.6, spec_min = 3.0, spec_max = 4.2, color = ''#2196F3''\<rparr> \<and>
   (\<exists>ws. get_safety_warnings 3.6 2 (- 5) ''NMC'' = Inr ws \<and> ws \<noteq> [] \<and>
      (WARNING, Low_temperature (- 5)) \<in> set ws)"
  using get_safety_warnings_empty_iff
    [of "''NMC''" "\<lparr>nominal = 3.6, spec_min = 3.0, spec_max = 4.2, color = ''#2196F3''\<rparr>"
        "3.6" 2 "- 5"]
  by (simp add: CELL_SPECS_def)

subsection \<open>Charge estimator\<close>

lemma interp_bounds:
  fixes v mn mx :: real
  assumes "mn < v" "v < mx"
  shows "0 < (v - mn) / (mx - mn) * 100" and "(v - mn) / (mx - mn) * 100 < 100"
proof -
  from assms have d: "0 < mx - mn" and n: "0 < v - mn" and l: "v - mn < mx - mn"
    by simp_all
  from n d show "0 < (v - mn) / (mx - mn) * 100" by simp
  from l d have "(v - mn) / (mx - mn) < 1" by simp
  then have "(v - mn) / (mx - mn) * 100 < 1 * 100"
    by (rule mult_strict_right_mono) simp
  then show "(v - mn) / (mx - mn) * 100 < 100" by simp
qed

lemma interp_mono:
  fixes v1 v2 mn mx :: real
  assumes "mn < mx" "v1 \<le> v2"
  shows "(v1 - mn) / (mx - mn) * 100 \<le> (v2 - mn) / (mx - mn) * 100"
proof -
  from assms have "(v1 - mn) / (mx - mn) \<le> (v2 - mn) / (mx - mn)"
    by (intro divide_right_mono) simp_all
  then show ?thesis by (rule mult_right_mono) simp
qed

text \<open>On a chemistry of the table the division is never by zero: \<open>min < max\<close>.\<close>

lemma charge_value:
  assumes "CELL_SPECS cell_type = Some spec"
  shows "calculate_charge_percentage v cell_type =
           Inr (if v \<le> spec_min spec then 0
                else if v \<ge> spec_max spec then 100
                else (v - spec_min spec) / (spec_max spec - spec_min spec) * 100)"
  using assms CELL_SPECS_Some(2)[OF assms]
  by (simp add: calculate_charge_percentage_def)

text \<open>
  Claim C2. For every voltage \<open>v\<close> and every chemistry of the table, with bounds
  \<open>(min, max)\<close>, \<open>calculate_charge_percentage\<close> returns \<open>0\<close> when \<open>v \<le> min\<close>, \<open>100\<close> when
  \<open>v \<ge> max\<close> and \<open>(v - min) / (max - min) * 100\<close> otherwise; the result lies in
  \<open>[0, 100]\<close>; at \<open>min\<close> it is \<open>0\<close> and at \<open>max\<close> it is \<open>100\<close>.
\<close>

theorem calculate_charge_percentage_cases:
  assumes "CELL_SPECS cell_type = Some spec"
  shows "calculate_charge_percentage v cell_type =
           Inr (if v \<le> spec_min spec then 0
                else if v \<ge> spec_max spec then 100
                else (v - spec_min spec) / (spec_max spec - spec_min spec) * 100) \<and>
         (\<exists>p. calculate_charge_percentage v cell_type = Inr p \<and> 0 \<le> p \<and> p \<le> 100) \<and>
         calculate_charge_percentage (spec_min spec) cell_type = Inr 0 \<and>
         calculate_charge_percentage (spec_max spec) cell_type = Inr 100"
proof -
  note lt = CELL_SPECS_Some(2)[OF assms]
  have range: "\<exists>p. calculate_charge_percentage v cell_type = Inr p \<and> 0 \<le> p \<and> p \<le> 100"
  proof (cases "v \<le> spec_min spec \<or> v \<ge> spec_max spec")
    case True
    then show ?thesis by (auto simp: charge_value[OF assms])
  next
    case False
    then have "spec_min spec < v" "v < spec_max spec" by simp_all
    from interp_bounds[OF this] False show ?thesis
      by (simp add: charge_value[OF assms])
  qed
  from lt have "calculate_charge_percentage (spec_min spec) cell_type = Inr 0"
    and "calculate_charge_percentage (spec_max spec) cell_type = Inr 100"
    by (simp_all add: charge_value[OF assms])
  with range charge_value[OF assms, of v] show ?thesis by blast
qed

theorem calculate_charge_percentage_cases_witness:
  "CELL_SPECS ''LFP'' =
     Some \<lparr>nominal = 3.2, spec_min = 2.8, spec_max = 3.6, color = ''#4CAF50''\<rparr> \<and>
   calculate_charge_percentage 3.2 ''LFP'' = Inr 50 \<and>
   calculate_charge_percentage 2.8 ''LFP'' = Inr 0 \<and>
   calculate_charge_percentage 3.6 ''LFP'' = Inr 100"
  using calculate_charge_percentage_cases
    [of "''LFP''" "\<lparr>nominal = 3.2, spec_min = 2.8, spec_max = 3.6, color = ''#4CAF50''\<rparr>"
        "3.2"]
  by (simp add: CELL_SPECS_def)

text \<open>
  Claim C9. For a fixed chemistry of the table and voltages \<open>v1 \<le> v2\<close>, the charge
  estimated at \<open>v1\<close> is at most the charge estimated at \<open>v2\<close>.
\<close>

theorem calculate_charge_percentage_mono:
  assumes "CELL_SPECS cell_type = Some spec" "v1 \<le> v2"
  shows "\<exists>p1 p2. calculate_charge_percentage v1 cell_type = Inr p1 \<and>
                 calculate_charge_percentage v2 cell_type = Inr p2 \<and> p1 \<le> p2"
proof -
  note lt = CELL_SPECS_Some(2)[OF assms(1)]
  let ?f = "\<lambda>v. if v \<le> spec_min spec then 0
                else if v \<ge> spec_max spec then 100
                else (v - spec_min spec) / (spec_max spec - spec_min spec) * 100"
  have "?f v1 \<le> ?f v2"
  proof (cases "v1 \<le> spec_min spec")
    case True
    then show ?thesis using interp_bounds(1)[of "spec_min spec" v2 "spec_max spec"]
      by (auto simp: not_le intro: less_imp_le)
  next
    case lo: False
    show ?thesis
    proof (cases "v2 \<ge> spec_max spec")
      case True
      then show ?thesis
        using lo lt interp_bounds(2)[of "spec_min spec" v1 "spec_max spec"]
        by (auto simp: not_le intro: less_imp_le)
    next
      case False
      with lo assms(2) interp_mono[OF lt assms(2)] show ?thesis by auto
    qed
  qed
  then show ?thesis by (simp add: charge_value[OF assms(1)])
qed

theorem calculate_charge_percentage_mono_witness:
  "CELL_SPECS ''LTO'' =
     Some \<lparr>nominal = 2.4, spec_min = 1.8, spec_max = 2.8, color = ''#FF9800''\<rparr> \<and>
   (2.0::real) \<le> 2.3 \<and>
   (\<exists>p1 p2. calculate_charge_percentage 2.0 ''LTO'' = Inr p1 \<and>
            calculate_charge_percentage 2.3 ''LTO'' = Inr p2 \<and> p1 \<le> p2)"
  using calculate_charge_percentage_mono
    [of "''LTO''" "\<lparr>nominal = 2.4, spec_min = 1.8, spec_max = 2.8, color = ''#FF9800''\<rparr>"
        "2.0" "2.3"]
  by (simp add: CELL_SPECS_def)

subsection \<open>Safety score\<close>

text \<open>
  Claim C3. For every number \<open>n\<close> of warnings the safety score is
  \<open>max(0, 100 - 25 * n)\<close>: each warning costs 25 points and the score stops at 0. The
  score of 0 warnings is 100, of 3 warnings 25, of 5 warnings 0.
\<close>

theorem safety_score_formula:
  "safety_score n = max 0 (100 - 25 * int n) \<and>
   safety_score n = (if n \<le> 4 then 100 - 25 * int n else 0) \<and>
   safety_score 0 = 100 \<and> safety_score 3 = 25 \<and> safety_score 5 = 0"
  by (auto simp: safety_score_def)


subsection \<open>Safety evaluator: order and exclusion\<close>

text \<open>
  Claim C5. The list returned by \<open>get_safety_warnings\<close> is the voltage warning, then the
  current warning, then the temperature warning, each dimension giving at most one:
  overvoltage (CRITICAL) is tested before undervoltage (WARNING) and excludes it,
  overheating (CRITICAL, \<open>t > 45\<close>) is tested before low temperature (WARNING,
  \<open>t < 0\<close>) and excludes it. The dimensions of the list are strictly increasing, and
  the list never holds both the over and the under warning of one dimension.
\<close>

theorem get_safety_warnings_order:
  assumes "CELL_SPECS cell_type = Some spec"
  shows "get_safety_warnings v i t cell_type =
           Inr ((if v > spec_max spec then [(CRITICAL, Overvoltage v (spec_max spec))]
                 else if v < spec_min spec then [(WARNING, Undervoltage v (spec_min spec))]
                 else []) @
                (if \<bar>i\<bar> > 10 then [(WARNING, High_current \<bar>i\<bar>)] else []) @
                (if t > 45 then [(CRITICAL, Overheating t)]
                 else if t < 0 then [(WARNING, Low_temperature t)]
                 else [])) \<and>
         (\<exists>ws. get_safety_warnings v i t cell_type = Inr ws \<and>
            sorted_wrt (<) (map dimension ws) \<and>
            \<not> ((CRITICAL, Overvoltage v (spec_max spec)) \<in> set ws \<and>
               (WARNING, Undervoltage v (spec_min spec)) \<in> set ws) \<and>
            \<not> ((CRITICAL, Overheating t) \<in> set ws \<and>
               (WARNING, Low_temperature t) \<in> set ws))"
  using assms by (auto simp: get_safety_warnings_def Let_def)

theorem get_safety_warnings_order_witness:
  "CELL_SPECS ''NMC'' =
     Some \<lparr>nominal = 3.6, spec_min = 3.0, spec_max = 4.2, color = ''#2196F3''\<rparr> \<and>
   get_safety_warnings 3.6 12 50 ''NMC'' =
     Inr [(WARNING, High_current 12), (CRITICAL, Overheating 50)]"
  using get_safety_warnings_order
    [of "''NMC''" "\<lparr>nominal = 3.6, spec_min = 3.0, spec_max = 4.2, color = ''#2196F3''\<rparr>"
        "3.6" 12 50]
  by (simp add: CELL_SPECS_def)

subsection \<open>Safety score of one reading\<close>

text \<open>
  Claim C10. For one reading on a chemistry of the table, \<open>get_safety_warnings\<close> returns
  at most 3 warnings, so the score the analysis page derives from it is at least 25 and
  is one of 25, 50, 75, 100: the floor 0 is not reached by a single reading.
\<close>

theorem single_reading_score:
  assumes "CELL_SPECS cell_type = Some spec"
  shows "\<exists>ws. get_safety_warnings v i t cell_type = Inr ws \<and> length ws \<le> 3 \<and>
           safety_row v i t cell_type = Inr (safety_score (length ws), length ws) \<and>
           25 \<le> safety_score (length ws) \<and>
           safety_score (length ws) \<in> {25, 50, 75, 100}"
  using assms
  by (auto simp: get_safety_warnings_def safety_row_def safety_score_def Let_def)

theorem single_reading_score_witness:
  "CELL_SPECS ''LFP'' =
     Some \<lparr>nominal = 3.2, spec_min = 2.8, spec_max = 3.6, color = ''#4CAF50''\<rparr> \<and>
   (\<exists>ws. get_safety_warnings 3.7 12 50 ''LFP'' = Inr ws \<and> length ws = 3 \<and>
      safety_row 3.7 12 50 ''LFP'' = Inr (25, 3))"
  using single_reading_score
    [of "''LFP''" "\<lparr>nominal = 3.2, spec_min = 2.8, spec_max = 3.6, color = ''#4CAF50''\<rparr>"
        "3.7" 12 50]
  by (simp add: CELL_SPECS_def get_safety_warnings_def safety_row_def safety_score_def)

subsection \<open>Telemetry synthesizer\<close>

lemma data_points_length_aux:
  "data_points now status cells g = (ps, g') \<Longrightarrow> length ps = length cells"
  by (induction cells arbitrary: g ps g') (auto simp: Let_def split: prod.splits)

lemma data_points_length:
  "length (fst (data_points now status cells g)) = length cells"
  using data_points_length_aux[of now status cells g]
  by (cases "data_points now status cells g") simp

lemma generate_length:
  "length (fst (generate_real_time_data now st g)) = length (cells_data st)"
  by (simp add: generate_real_time_data_def data_points_length)

text \<open>
  Every data point of the loop is built from the perturbation of one configured cell,
  drawn at some state of the random source.
\<close>

lemma data_points_member:
  assumes "p \<in> set (fst (data_points now status cells g))"
  shows "\<exists>cell_name cell g' v i t.
           (cell_name, cell) \<in> set cells \<and> fst (perturb status cell g') = (v, i, t) \<and>
           p = make_data_point now cell_name cell v i t"
  using assms
proof (induction cells arbitrary: g)
  case Nil
  then show ?case by simp
next
  case (Cons c cells)
  obtain cell_name cell where c: "c = (cell_name, cell)" by (cases c)
  obtain v i t g1 where pt: "perturb status cell g = ((v, i, t), g1)"
    by (metis prod_cases3 surj_pair)
  from Cons.prems c pt
  have "p = make_data_point now cell_name cell v i t \<or>
        p \<in> set (fst (data_points now status cells g1))"
    by (auto simp: Let_def split: prod.splits)
  then show ?case
  proof
    assume "p = make_data_point now cell_name cell v i t"
    with c pt show ?thesis by (metis fst_conv list.set_intros(1))
  next
    assume "p \<in> set (fst (data_points now status cells g1))"
    from Cons.IH[OF this] show ?thesis by (metis list.set_intros(2))
  qed
qed

lemma perturb_idle_current:
  assumes "status \<notin> {''Charging'', ''Discharging'', ''Paused''}"
  shows "fst (snd (fst (perturb status cell g))) = 0"
  using assms by (simp add: perturb_def Let_def split: prod.splits)

text \<open>
  Where the clamp does not fire the stored capacity agrees with the stored fields: a data
  point with a positive voltage has capacity \<open>|voltage * current|\<close> when its current is
  not 0, and a data point with current 0 has capacity 0.
\<close>

lemma capacity_agrees_when_unclamped:
  assumes "p \<in> set (fst (generate_real_time_data now st g))"
  shows "s_current p = 0 \<Longrightarrow> s_capacity p = 0"
    and "s_current p \<noteq> 0 \<Longrightarrow> 0 < s_voltage p \<Longrightarrow>
           s_capacity p = \<bar>s_voltage p * s_current p\<bar>"
proof -
  from assms obtain cell_name cell v i t where
    p: "p = make_data_point now cell_name cell v i t"
    unfolding generate_real_time_data_def using data_points_member by blast
  show "s_current p = 0 \<Longrightarrow> s_capacity p = 0"
    using p by (simp add: make_data_point_def)
  show "s_current p \<noteq> 0 \<Longrightarrow> 0 < s_voltage p \<Longrightarrow>
          s_capacity p = \<bar>s_voltage p * s_current p\<bar>"
    using p by (auto simp: make_data_point_def max_def split: if_splits)
qed

text \<open>
  Claim C4. The capacity of an emitted data point is \<open>|voltage * current|\<close> of that data
  point when its current is not 0, and 0 when its current is 0, the voltage being the
  emitted one, after the clamp to \<open>\<ge> 0\<close>.

  The code breaks this when the clamp fires. The dictionary stores
  \<^verbatim>\<open>'voltage': max(0, voltage)\<close> and, beside it,
  \<^verbatim>\<open>'capacity': abs(voltage * current)\<close> from the local variable that was not
  clamped, so the data point contradicts its own fields. A cell configured at 0 V and
  2 A, discharging, with every draw in the middle of its interval, is perturbed to
  -0.1 V, -2 A and 28 degrees; the data point emitted for it has voltage 0, current -2
  and capacity 0.2, where \<open>|0 * (-2)| = 0\<close>.
\<close>

theorem capacity_ignores_clamp:
  "fst (perturb ''Discharging''
          \<lparr>c_type = Some ''LFP'', c_voltage = 0, c_current = 2,
             c_temperature = 25, c_time = 1, c_capacity = 0\<rparr> (\<lambda>n. 1 / 2)) =
     (- (1 / 10), - 2, 28) \<and>
   fst (generate_real_time_data 0
          \<lparr>cells_data = [(''Cell_1'', \<lparr>c_type = Some ''LFP'', c_voltage = 0, c_current = 2,
              c_temperature = 25, c_time = 1, c_capacity = 0\<rparr>)],
           charging_status = ''Discharging'', real_time_data = []\<rparr> (\<lambda>n. 1 / 2)) =
     [\<lparr>s_timestamp = 0, s_cell_id = ''Cell_1'', s_cell_type = ''LFP'', s_voltage = 0,
       s_current = - 2, s_temperature = 28, s_capacity = 1 / 5\<rparr>] \<and>
   (- 2::real) \<noteq> 0 \<and> (1 / 5::real) \<noteq> \<bar>0 * (- 2)\<bar>"
  by (simp add: generate_real_time_data_def perturb_def random_uniform_def
      make_data_point_def Let_def)

text \<open>
  Claim C6. For every session (every baseline of every cell), every status and every
  random source, the voltage of each emitted data point is at least 0, also when the
  perturbed voltage is negative.
\<close>

theorem emitted_voltage_nonneg:
  "\<forall>p \<in> set (fst (generate_real_time_data now st g)). 0 \<le> s_voltage p"
proof
  fix p assume "p \<in> set (fst (generate_real_time_data now st g))"
  then obtain cell_name cell v i t where "p = make_data_point now cell_name cell v i t"
    unfolding generate_real_time_data_def using data_points_member by blast
  then show "0 \<le> s_voltage p" by (simp add: make_data_point_def)
qed

theorem emitted_voltage_nonneg_witness:
  "fst (perturb ''Discharging'' \<lparr>c_type = Some ''LFP'', c_voltage = 0, c_current = 2,
          c_temperature = 25, c_time = 1, c_capacity = 0\<rparr> (\<lambda>n. 1 / 2)) =
     (- (1 / 10), - 2, 28) \<and>
   0 \<le> s_voltage (hd (fst (generate_real_time_data 0
         \<lparr>cells_data = [(''Cell_1'', \<lparr>c_type = Some ''LFP'', c_voltage = 0, c_current = 2,
              c_temperature = 25, c_time = 1, c_capacity = 0\<rparr>)],
          charging_status = ''Discharging'', real_time_data = []\<rparr> (\<lambda>n. 1 / 2))))"
  using emitted_voltage_nonneg
    [of 0 "\<lparr>cells_data = [(''Cell_1'', \<lparr>c_type = Some ''LFP'', c_voltage = 0, c_current = 2,
              c_temperature = 25, c_time = 1, c_capacity = 0\<rparr>)],
          charging_status = ''Discharging'', real_time_data = []\<rparr>" "\<lambda>n. 1 / 2"]
  by (simp add: generate_real_time_data_def perturb_def random_uniform_def
      make_data_point_def Let_def)

text \<open>
  Claim C7. Under the Idle status (the final \<open>else\<close> of the source: any status other
  than Charging, Discharging and Paused), for every baseline and every random source,
  the current of each emitted data point is exactly 0.
\<close>

theorem idle_current_zero:
  assumes "charging_status st \<notin> {''Charging'', ''Discharging'', ''Paused''}"
  shows "\<forall>p \<in> set (fst (generate_real_time_data now st g)). s_current p = 0"
proof
  fix p assume "p \<in> set (fst (generate_real_time_data now st g))"
  then obtain cell_name cell g' v i t where
    pt: "fst (perturb (charging_status st) cell g') = (v, i, t)"
    and p: "p = make_data_point now cell_name cell v i t"
    unfolding generate_real_time_data_def using data_points_member by blast
  from perturb_idle_current[OF assms, of cell g'] pt have "i = 0" by simp
  with p show "s_current p = 0" by (simp add: make_data_point_def)
qed

theorem idle_current_zero_witness:
  "''Idle'' \<notin> {''Charging'', ''Discharging'', ''Paused''} \<and>
   s_current (hd (fst (generate_real_time_data 0
         \<lparr>cells_data = [(''Cell_1'', \<lparr>c_type = Some ''LFP'', c_voltage = 3.2, c_current = 2.0,
              c_temperature = 25, c_time = 1, c_capacity = 6.4\<rparr>)],
          charging_status = ''Idle'', real_time_data = []\<rparr> (\<lambda>n. 1 / 4)))) = 0"
  using idle_current_zero
    [of "\<lparr>cells_data = [(''Cell_1'', \<lparr>c_type = Some ''LFP'', c_voltage = 3.2, c_current = 2.0,
              c_temperature = 25, c_time = 1, c_capacity = 6.4\<rparr>)],
          charging_status = ''Idle'', real_time_data = []\<rparr>" 0 "\<lambda>n. 1 / 4"]
  by (simp add: generate_real_time_data_def perturb_def random_uniform_def
      make_data_point_def Let_def)

subsection \<open>Rolling real-time buffer\<close>

lemma tick_cells: "cells_data (fst (control_panel_tick now st g)) = cells_data st"
  by (simp add: control_panel_tick_def Let_def split: prod.splits)

lemma tick_buffer:
  assumes "cells_data st \<noteq> []"
  shows "real_time_data (fst (control_panel_tick now st g)) =
           (let xs = real_time_data st @ fst (generate_real_time_data now st g)
            in drop (length xs - 60 * length (cells_data st)) xs)"
  using assms
  by (cases "generate_real_time_data now st g")
     (auto simp: control_panel_tick_def Let_def slice_last_def)

lemma tick_length:
  assumes "cells_data st \<noteq> []"
  shows "length (real_time_data (fst (control_panel_tick now st g))) =
           min (60 * length (cells_data st))
               (length (real_time_data st) + length (cells_data st))"
  using assms by (simp add: tick_buffer Let_def generate_length)

lemma run_ticks_cells: "cells_data (fst (run_ticks ticks st g)) = cells_data st"
proof (induction ticks arbitrary: st g)
  case Nil
  then show ?case by simp
next
  case (Cons now ticks)
  obtain st1 g1 where t: "control_panel_tick now st g = (st1, g1)"
    by (cases "control_panel_tick now st g")
  with tick_cells[of now st g] have "cells_data st1 = cells_data st" by simp
  with Cons.IH[of st1 g1] t show ?case by simp
qed

lemma run_ticks_bound:
  assumes "cells_data st \<noteq> []"
    and "ticks \<noteq> [] \<or> length (real_time_data st) \<le> 60 * length (cells_data st)"
  shows "length (real_time_data (fst (run_ticks ticks st g))) \<le> 60 * length (cells_data st)"
  using assms
proof (induction ticks arbitrary: st g)
  case Nil
  then show ?case by simp
next
  case (Cons now ticks)
  obtain st1 g1 where t: "control_panel_tick now st g = (st1, g1)"
    by (cases "control_panel_tick now st g")
  with tick_cells[of now st g] have c: "cells_data st1 = cells_data st" by simp
  from tick_length[OF Cons.prems(1), of now g] t c
  have "length (real_time_data st1) \<le> 60 * length (cells_data st1)" by simp
  with Cons.IH[of st1 g1] c Cons.prems(1) t show ?case by simp
qed

text \<open>
  Claim C8. With at least one configured cell (the guard of the tick), after any
  non-empty sequence of ticks, each appending one data point per cell and then cutting
  the buffer, the buffer holds at most 60 times the number of cells entries. One tick
  leaves \<open>min (60 * cells) (old length + cells)\<close> entries, and what it removes is the
  front of the whole buffer: the result is the old buffer followed by the new data
  points, without its oldest entries.
\<close>

theorem rolling_buffer_bound:
  assumes "cells_data st \<noteq> []" and "ticks \<noteq> []"
  shows "length (real_time_data (fst (run_ticks ticks st g)))
           \<le> 60 * length (cells_data (fst (run_ticks ticks st g))) \<and>
         length (real_time_data (fst (control_panel_tick now st g))) =
           min (60 * length (cells_data st))
               (length (real_time_data st) + length (cells_data st)) \<and>
         real_time_data (fst (control_panel_tick now st g)) =
           drop (length (real_time_data st) + length (cells_data st)
                   - 60 * length (cells_data st))
                (real_time_data st @ fst (generate_real_time_data now st g))"
proof -
  have a: "length (real_time_data (fst (run_ticks ticks st g)))
           \<le> 60 * length (cells_data (fst (run_ticks ticks st g)))"
    using run_ticks_bound[of st ticks g] assms by (simp add: run_ticks_cells)
  have b: "real_time_data (fst (control_panel_tick now st g)) =
           drop (length (real_time_data st) + length (cells_data st)
                   - 60 * length (cells_data st))
                (real_time_data st @ fst (generate_real_time_data now st g))"
    unfolding tick_buffer[OF assms(1)] Let_def length_append generate_length ..
  from a tick_length[OF assms(1), of now g] b show ?thesis by blast
qed

theorem rolling_buffer_bound_witness:
  "cells_data \<lparr>cells_data = [(''Cell_1'', \<lparr>c_type = Some ''LFP'', c_voltage = 3.2, c_current = 2,
              c_temperature = 25, c_time = 1, c_capacity = 6.4\<rparr>)],
          charging_status = ''Idle'',
          real_time_data = replicate 60 \<lparr>s_timestamp = 0, s_cell_id = ''Cell_1'',
            s_cell_type = ''LFP'', s_voltage = 3.2, s_current = 0, s_temperature = 25,
            s_capacity = 0\<rparr>\<rparr> \<noteq> [] \<and>
   [1, 2] \<noteq> ([] :: datetime list) \<and>
   length (real_time_data (fst (run_ticks [1, 2]
      \<lparr>cells_data = [(''Cell_1'', \<lparr>c_type = Some ''LFP'', c_voltage = 3.2, c_current = 2,
              c_temperature = 25, c_time = 1, c_capacity = 6.4\<rparr>)],
          charging_status = ''Idle'',
          real_time_data = replicate 60 \<lparr>s_timestamp = 0, s_cell_id = ''Cell_1'',
            s_cell_type = ''LFP'', s_voltage = 3.2, s_current = 0, s_temperature = 25,
            s_capacity = 0\<rparr>\<rparr> (\<lambda>n. 1 / 2)))) \<le> 60 \<and>
   length (real_time_data (fst (control_panel_tick 1
      \<lparr>cells_data = [(''Cell_1'', \<lparr>c_type = Some ''LFP'', c_voltage = 3.2, c_current = 2,
              c_temperature = 25, c_time = 1, c_capacity = 6.4\<rparr>)],
          charging_status = ''Idle'',
          real_time_data = replicate 60 \<lparr>s_timestamp = 0, s_cell_id = ''Cell_1'',
            s_cell_type = ''LFP'', s_voltage = 3.2, s_current = 0, s_temperature = 25,
            s_capacity = 0\<rparr>\<rparr> (\<lambda>n. 1 / 2)))) = 60"
proof -
  let ?S = "\<lparr>cells_data = [(''Cell_1'', \<lparr>c_type = Some ''LFP'', c_voltage = 3.2, c_current = 2,
              c_temperature = 25, c_time = 1, c_capacity = 6.4\<rparr>)],
          charging_status = ''Idle'',
          real_time_data = replicate 60 \<lparr>s_timestamp = 0, s_cell_id = ''Cell_1'',
            s_cell_type = ''LFP'', s_voltage = 3.2, s_current = 0, s_temperature = 25,
            s_capacity = 0\<rparr>\<rparr>"
  have h1: "cells_data ?S \<noteq> []" by simp
  have h2: "[1, 2] \<noteq> ([] :: datetime list)" by simp
  from rolling_buffer_bound[OF h1 h2, of "\<lambda>n. 1 / 2" 1] show ?thesis
    by (simp add: run_ticks_cells generate_length del: run_ticks.simps)
qed

end
